theory Spec2Isabelle
  imports Complex_Main "HOL-Library.Log_Nat"
begin

section \<open>Plain structured data\<close>

text \<open>
  Predicates, boolean trees and response values are plain JavaScript data. A value of type
  \<open>any\<close> is a \<open>jsany\<close>; an object is its list of own properties, in the order they
  were created (an engine lists integer-like names first; no statement here rests on where
  such a name stands). A number inside such a value is a finite number that is only passed
  on, never computed with; the numbers the builder computes with are doubles, below.
\<close>

datatype jsany =
    JUndefined
  | JNull
  | JBool bool
  | JNum rat
  | JStr string
  | JArray "jsany list"
  | JObject "(string \<times> jsany) list"

type_synonym jsobj = "(string \<times> jsany) list"

text \<open>\<open>k in v\<close> for a value \<open>v\<close> that is an object or an array, and a key that is no index.\<close>

fun js_in :: "string \<Rightarrow> jsany \<Rightarrow> bool" where
  "js_in k (JObject kvs) = (k \<in> set (map fst kvs))"
| "js_in k v = False"

text \<open>Property read \<open>obj.k\<close>: \<open>undefined\<close> when the object has no such property.\<close>

definition get :: "jsobj \<Rightarrow> string \<Rightarrow> jsany" where
  "get obj k = (case map_of obj k of None \<Rightarrow> JUndefined | Some v \<Rightarrow> v)"

text \<open>
  Setting an own data property: an existing property keeps its place, a new one is added
  last.
\<close>

fun put :: "jsobj \<Rightarrow> string \<Rightarrow> jsany \<Rightarrow> jsobj" where
  "put [] k v = [(k, v)]"
| "put ((k', v') # obj) k v = (if k' = k then (k, v) # obj else (k', v') # put obj k v)"

text \<open>Array read \<open>xs[i]\<close>: \<open>undefined\<close> beyond the end.\<close>

definition js_nth :: "jsany list \<Rightarrow> nat \<Rightarrow> jsany" where
  "js_nth xs i = (if i < length xs then xs ! i else JUndefined)"

fun typeof :: "jsany \<Rightarrow> string" where
  "typeof JUndefined = ''undefined''"
| "typeof JNull = ''object''"
| "typeof (JBool b) = ''boolean''"
| "typeof (JNum n) = ''number''"
| "typeof (JStr s) = ''string''"
| "typeof (JArray xs) = ''object''"
| "typeof (JObject kvs) = ''object''"

text \<open>
  \<open>JSON.parse(JSON.stringify(v))\<close> as a function on values: a property whose value is
  \<open>undefined\<close> is dropped, an \<open>undefined\<close> array element becomes \<open>null\<close>, and
  \<open>undefined\<close> itself has no document (it stays \<open>JUndefined\<close>).
\<close>

primrec json :: "jsany \<Rightarrow> jsany" where
  "json JUndefined = JUndefined"
| "json JNull = JNull"
| "json (JBool b) = JBool b"
| "json (JNum n) = JNum n"
| "json (JStr s) = JStr s"
| "json (JArray xs) = JArray (map (\<lambda>v. if v = JUndefined then JNull else v) (map json xs))"
| "json (JObject kvs) =
     JObject (filter (\<lambda>kv. snd kv \<noteq> JUndefined) (map (map_prod id json) kvs))"

section \<open>Numbers\<close>

text \<open>
  A JavaScript number is a double: a finite value, an infinity or NaN. \<open>Fin x\<close> is the
  double of value \<open>x\<close>; the two zeros are one, as no operation here tells them apart.
  \<open>to_double\<close> rounds a rational to the nearest double of binary64, ties to the even
  significand: with \<open>2 ^ e\<close> the unit in the last place of the 53-bit significand (not
  below \<open>2 ^ - 1074\<close>), the value becomes a multiple of it, and a result of magnitude
  \<open>2 ^ 1024\<close> or more is an infinity.
\<close>

datatype number = Fin rat | PInf | NInf | NaN

definition round_even :: "rat \<Rightarrow> int" where
  "round_even y =
     (let f = \<lfloor>y\<rfloor>; r = y - of_int f
      in if r < 1 / 2 then f else if 1 / 2 < r then f + 1 else if even f then f else f + 1)"

text \<open>The integer part of the binary logarithm of \<open>\<bar>x\<bar>\<close>, for \<open>x\<close> other than zero.\<close>

definition ilog2 :: "rat \<Rightarrow> int" where
  "ilog2 x = (if 1 \<le> \<bar>x\<bar> then bitlen \<lfloor>\<bar>x\<bar>\<rfloor> - 1 else - bitlen (\<lceil>1 / \<bar>x\<bar>\<rceil> - 1))"

definition to_double :: "rat \<Rightarrow> number" where
  "to_double x =
     (if x = 0 then Fin 0
      else
        (let e = max (- 1074) (ilog2 x - 52);
             m = round_even (x / 2 powi e);
             y = of_int m * 2 powi e
         in if 2 ^ 1024 \<le> \<bar>y\<bar> then (if 0 < x then PInf else NInf) else Fin y))"

text \<open>\<open>a + b\<close> and \<open>a - b\<close> on numbers: the exact result, rounded.\<close>

fun js_add :: "number \<Rightarrow> number \<Rightarrow> number" where
  "js_add (Fin a) (Fin b) = to_double (a + b)"
| "js_add NaN b = NaN"
| "js_add a NaN = NaN"
| "js_add PInf NInf = NaN"
| "js_add NInf PInf = NaN"
| "js_add PInf b = PInf"
| "js_add a PInf = PInf"
| "js_add NInf b = NInf"
| "js_add a NInf = NInf"

fun js_neg :: "number \<Rightarrow> number" where
  "js_neg (Fin a) = Fin (- a)"
| "js_neg PInf = NInf"
| "js_neg NInf = PInf"
| "js_neg NaN = NaN"

definition js_sub :: "number \<Rightarrow> number \<Rightarrow> number" where
  "js_sub a b = js_add a (js_neg b)"

text \<open>
  An element of the \<open>range\<close> array: a number, or the \<open>null\<close> that \<open>JSON\<close> writes for an
  infinity or NaN. Arithmetic takes \<open>null\<close> as zero.
\<close>

datatype num_or_null = Num number | Null

fun ToNumber :: "num_or_null \<Rightarrow> number" where
  "ToNumber (Num n) = n"
| "ToNumber Null = Fin 0"

text \<open>\<open>JSON.parse(JSON.stringify(v))\<close> for such an element.\<close>

fun json_num :: "num_or_null \<Rightarrow> num_or_null" where
  "json_num (Num (Fin x)) = Num (Fin x)"
| "json_num v = Null"


section \<open>Objects with a prototype\<close>

text \<open>
  The record \<open>getScannerData\<close> builds starts as an object literal, so its prototype is
  \<open>Object.prototype\<close>, whose one accessor property is \<open>__proto__\<close>. The assignment
  \<open>obj[k] = v\<close> sets an own property, but for \<open>k = '__proto__'\<close> it runs that accessor's
  setter when the lookup reaches it: when the object has no own property of the name, a
  prototype that is a value parsed from JSON has none either, and the prototype chain has
  not been cut. The setter makes an object or array \<open>v\<close> the prototype, cuts the chain
  for \<open>null\<close>, and does nothing for any other \<open>v\<close>; it never adds a property.
\<close>

datatype prototype = ObjectPrototype | NoPrototype | Prototype jsany

record js_object =
  own_props :: jsobj
  prototype_of :: prototype

fun reaches_accessor :: "prototype \<Rightarrow> bool" where
  "reaches_accessor ObjectPrototype = True"
| "reaches_accessor NoPrototype = False"
| "reaches_accessor (Prototype (JObject kvs)) = (''__proto__'' \<notin> set (map fst kvs))"
| "reaches_accessor (Prototype v) = True"

fun proto_setter :: "js_object \<Rightarrow> jsany \<Rightarrow> js_object" where
  "proto_setter obj (JObject kvs) = obj\<lparr>prototype_of := Prototype (JObject kvs)\<rparr>"
| "proto_setter obj (JArray xs) = obj\<lparr>prototype_of := Prototype (JArray xs)\<rparr>"
| "proto_setter obj JNull = obj\<lparr>prototype_of := NoPrototype\<rparr>"
| "proto_setter obj v = obj"

definition assign :: "js_object \<Rightarrow> string \<Rightarrow> jsany \<Rightarrow> js_object" where
  "assign obj k v =
     (if k = ''__proto__'' \<and> ''__proto__'' \<notin> set (map fst (own_props obj)) \<and>
         reaches_accessor (prototype_of obj)
      then proto_setter obj v
      else obj\<lparr>own_props := put (own_props obj) k v\<rparr>)"

section \<open>models.ts\<close>

text \<open>The closed vocabulary of type \<open>Operation\<close>.\<close>

definition Operation :: "string list" where
  "Operation =
    [''greater'', ''less'', ''egreater'', ''eless'', ''equal'', ''nequal'',
     ''in_range'', ''not_in_range'', ''in_day_range'', ''in_week_range'', ''in_month_range'',
     ''above_pct'', ''below_pct'', ''in_range_pct'', ''not_in_range_pct'',
     ''crosses'', ''crosses_above'', ''crosses_below'', ''match'', ''nmatch'',
     ''has'', ''has_none_of'', ''empty'', ''nempty'']"

text \<open>
  Interface \<open>FilterOperationDict\<close>: \<open>left\<close> is a string, \<open>operation\<close> is one of the
  operation codes, \<open>right\<close> is optional and of any type.
\<close>

definition isFilterOperationDict :: "jsobj \<Rightarrow> bool" where
  "isFilterOperationDict e =
     ((case map_of e ''left'' of Some (JStr l) \<Rightarrow> True | _ \<Rightarrow> False) \<and>
      (case map_of e ''operation'' of Some (JStr c) \<Rightarrow> c \<in> set Operation | _ \<Rightarrow> False))"

section \<open>column.ts\<close>

datatype Column = Column (name: string)

definition gt :: "Column \<Rightarrow> jsany \<Rightarrow> jsobj" where
  "gt this v = [(''left'', JStr (name this)), (''operation'', JStr ''greater''), (''right'', v)]"

definition gte :: "Column \<Rightarrow> jsany \<Rightarrow> jsobj" where
  "gte this v = [(''left'', JStr (name this)), (''operation'', JStr ''egreater''), (''right'', v)]"

definition lt :: "Column \<Rightarrow> jsany \<Rightarrow> jsobj" where
  "lt this v = [(''left'', JStr (name this)), (''operation'', JStr ''less''), (''right'', v)]"

definition lte :: "Column \<Rightarrow> jsany \<Rightarrow> jsobj" where
  "lte this v = [(''left'', JStr (name this)), (''operation'', JStr ''eless''), (''right'', v)]"

definition eq :: "Column \<Rightarrow> jsany \<Rightarrow> jsobj" where
  "eq this v = [(''left'', JStr (name this)), (''operation'', JStr ''equal''), (''right'', v)]"

definition neq :: "Column \<Rightarrow> jsany \<Rightarrow> jsobj" where
  "neq this v = [(''left'', JStr (name this)), (''operation'', JStr ''nequal''), (''right'', v)]"

definition between :: "Column \<Rightarrow> rat \<Rightarrow> rat \<Rightarrow> jsobj" where
  "between this lo hi =
     [(''left'', JStr (name this)), (''operation'', JStr ''in_range''),
      (''right'', JArray [JNum lo, JNum hi])]"

definition notBetween :: "Column \<Rightarrow> rat \<Rightarrow> rat \<Rightarrow> jsobj" where
  "notBetween this lo hi =
     [(''left'', JStr (name this)), (''operation'', JStr ''not_in_range''),
      (''right'', JArray [JNum lo, JNum hi])]"

definition inDayRange :: "Column \<Rightarrow> rat \<Rightarrow> rat \<Rightarrow> jsobj" where
  "inDayRange this lo hi =
     [(''left'', JStr (name this)), (''operation'', JStr ''in_day_range''),
      (''right'', JArray [JNum lo, JNum hi])]"

definition inWeekRange :: "Column \<Rightarrow> rat \<Rightarrow> rat \<Rightarrow> jsobj" where
  "inWeekRange this lo hi =
     [(''left'', JStr (name this)), (''operation'', JStr ''in_week_range''),
      (''right'', JArray [JNum lo, JNum hi])]"

definition inMonthRange :: "Column \<Rightarrow> rat \<Rightarrow> rat \<Rightarrow> jsobj" where
  "inMonthRange this lo hi =
     [(''left'', JStr (name this)), (''operation'', JStr ''in_month_range''),
      (''right'', JArray [JNum lo, JNum hi])]"

definition abovePct :: "Column \<Rightarrow> rat \<Rightarrow> jsobj" where
  "abovePct this v =
     [(''left'', JStr (name this)), (''operation'', JStr ''above_pct''), (''right'', JNum v)]"

definition belowPct :: "Column \<Rightarrow> rat \<Rightarrow> jsobj" where
  "belowPct this v =
     [(''left'', JStr (name this)), (''operation'', JStr ''below_pct''), (''right'', JNum v)]"

definition betweenPct :: "Column \<Rightarrow> rat \<Rightarrow> rat \<Rightarrow> jsobj" where
  "betweenPct this lo hi =
     [(''left'', JStr (name this)), (''operation'', JStr ''in_range_pct''),
      (''right'', JArray [JNum lo, JNum hi])]"

definition notBetweenPct :: "Column \<Rightarrow> rat \<Rightarrow> rat \<Rightarrow> jsobj" where
  "notBetweenPct this lo hi =
     [(''left'', JStr (name this)), (''operation'', JStr ''not_in_range_pct''),
      (''right'', JArray [JNum lo, JNum hi])]"

definition crosses :: "Column \<Rightarrow> jsany \<Rightarrow> jsobj" where
  "crosses this v = [(''left'', JStr (name this)), (''operation'', JStr ''crosses''), (''right'', v)]"

definition crossesAbove :: "Column \<Rightarrow> jsany \<Rightarrow> jsobj" where
  "crossesAbove this v =
     [(''left'', JStr (name this)), (''operation'', JStr ''crosses_above''), (''right'', v)]"

definition crossesBelow :: "Column \<Rightarrow> jsany \<Rightarrow> jsobj" where
  "crossesBelow this v =
     [(''left'', JStr (name this)), (''operation'', JStr ''crosses_below''), (''right'', v)]"

definition like :: "Column \<Rightarrow> string \<Rightarrow> jsobj" where
  "like this pattern =
     [(''left'', JStr (name this)), (''operation'', JStr ''match''), (''right'', JStr pattern)]"

definition notLike :: "Column \<Rightarrow> string \<Rightarrow> jsobj" where
  "notLike this pattern =
     [(''left'', JStr (name this)), (''operation'', JStr ''nmatch''), (''right'', JStr pattern)]"

definition has :: "Column \<Rightarrow> jsany list \<Rightarrow> jsobj" where
  "has this vs = [(''left'', JStr (name this)), (''operation'', JStr ''has''), (''right'', JArray vs)]"

definition hasNoneOf :: "Column \<Rightarrow> jsany list \<Rightarrow> jsobj" where
  "hasNoneOf this vs =
     [(''left'', JStr (name this)), (''operation'', JStr ''has_none_of''), (''right'', JArray vs)]"

definition isin :: "Column \<Rightarrow> jsany list \<Rightarrow> jsobj" where
  "isin this vs = [(''left'', JStr (name this)), (''operation'', JStr ''has''), (''right'', JArray vs)]"

definition notIn :: "Column \<Rightarrow> jsany list \<Rightarrow> jsobj" where
  "notIn this vs =
     [(''left'', JStr (name this)), (''operation'', JStr ''has_none_of''), (''right'', JArray vs)]"

text \<open>
  \<open>Column.empty\<close>, here \<open>empty_c\<close>, and \<open>Column.notEmpty\<close>: object literals of two
  properties.
\<close>

definition empty_c :: "Column \<Rightarrow> jsobj" where
  "empty_c this = [(''left'', JStr (name this)), (''operation'', JStr ''empty'')]"

definition notEmpty :: "Column \<Rightarrow> jsobj" where
  "notEmpty this = [(''left'', JStr (name this)), (''operation'', JStr ''nempty'')]"

definition col :: "string \<Rightarrow> Column" where
  "col n = Column n"

section \<open>operators.ts\<close>

text \<open>
  The test both combinators apply to each argument:
  \<open>'operation' in expr && typeof expr.operation === 'object' && expr.operation !== null
  && 'operator' in expr.operation\<close>. The arguments are objects by their type.
\<close>

definition isOperationDict :: "jsobj \<Rightarrow> bool" where
  "isOperationDict expr =
     (js_in ''operation'' (JObject expr) \<and>
      typeof (get expr ''operation'') = ''object'' \<and>
      get expr ''operation'' \<noteq> JNull \<and>
      js_in ''operator'' (get expr ''operation''))"

definition And :: "jsobj list \<Rightarrow> jsobj" where
  "And expressions =
     (let operands =
        map (\<lambda>expr. if isOperationDict expr then JObject expr
                     else JObject [(''expression'', JObject expr)]) expressions
      in [(''operation'', JObject [(''operator'', JStr ''and''), (''operands'', JArray operands)])])"

definition Or :: "jsobj list \<Rightarrow> jsobj" where
  "Or expressions =
     (let operands =
        map (\<lambda>expr. if isOperationDict expr then JObject expr
                     else JObject [(''expression'', JObject expr)]) expressions
      in [(''operation'', JObject [(''operator'', JStr ''or''), (''operands'', JArray operands)])])"

text \<open>Readers of a connective node: its operator and its operand sequence.\<close>

definition operator_of :: "jsobj \<Rightarrow> jsany" where
  "operator_of node =
     (case get node ''operation'' of JObject c \<Rightarrow> get c ''operator'' | _ \<Rightarrow> JUndefined)"

definition operands_of :: "jsobj \<Rightarrow> jsany list" where
  "operands_of node =
     (case get node ''operation'' of
        JObject c \<Rightarrow> (case get c ''operands'' of JArray xs \<Rightarrow> xs | _ \<Rightarrow> [])
      | _ \<Rightarrow> [])"

text \<open>The leaf that wraps a bare predicate.\<close>

definition Leaf :: "jsobj \<Rightarrow> jsany" where
  "Leaf e = JObject [(''expression'', JObject e)]"


text \<open>The document of an object: \<open>JSON.parse(JSON.stringify(e))\<close> for an object \<open>e\<close>.\<close>

definition json_obj :: "jsobj \<Rightarrow> jsobj" where
  "json_obj e = filter (\<lambda>kv. snd kv \<noteq> JUndefined) (map (map_prod id json) e)"

section \<open>The query document and the heap\<close>

text \<open>
  The interfaces of models.ts as records; an optional property is an \<open>option\<close>.
  \<open>options\<close> is its \<open>lang\<close>, \<open>query\<close> its \<open>types\<close>, \<open>watchlist\<close> its \<open>id\<close> and
  \<open>price_conversion\<close> its \<open>to_symbol\<close>. The properties named \<open>filter\<close>, \<open>sort\<close> and
  \<open>range\<close> carry the suffix \<open>_fld\<close>.

  The builder mutates five kinds of object in place: the query document, its
  \<open>symbols\<close> object, and the \<open>groups\<close>, \<open>filter\<close> and \<open>range\<close> arrays. These live in a
  heap and are held by reference (the type parameters below are then addresses). Every
  other array or object is only ever replaced as a whole and is a value. With the
  parameters instantiated by values, the same records are the JSON document of a query.
\<close>

type_synonym addr = nat

datatype SortOrder = asc | desc

record SortByDict =
  sortBy :: string
  sortOrder :: SortOrder
  nullsFirst :: "bool option"

record SymbolGroup =
  group_type :: string
  group_values :: "string list"

record 'g SymbolsDict =
  query :: "string list option"
  tickers :: "string list option"
  symbolset :: "string option"
  watchlist :: "string option"
  groups :: "'g option"

record ('s, 'f, 'r) QueryDict =
  markets :: "string list option"
  symbols :: "'s option"
  options :: "string option option"
  columns :: "string list option"
  filter_fld :: "'f option"
  filter2 :: "jsobj option"
  sort_fld :: "SortByDict option"
  range_fld :: "'r option"
  preset :: "string option"
  price_conversion :: "bool option option"

type_synonym SymbolsDoc = "SymbolGroup list SymbolsDict"
type_synonym QueryDoc = "(SymbolsDoc, jsobj list, num_or_null \<times> num_or_null) QueryDict"

record heap =
  queries :: "addr \<Rightarrow> addr"
  dicts :: "addr \<Rightarrow> (addr, addr, addr) QueryDict"
  symbols_objs :: "addr \<Rightarrow> addr SymbolsDict"
  groups_arrays :: "addr \<Rightarrow> SymbolGroup list"
  filter_arrays :: "addr \<Rightarrow> jsobj list"
  range_arrays :: "addr \<Rightarrow> num_or_null \<times> num_or_null"
  nxt :: addr

text \<open>Allocation of a fresh object of each kind; addresses are never reused.\<close>

definition new_symbols :: "heap \<Rightarrow> addr SymbolsDict \<Rightarrow> heap \<times> addr" where
  "new_symbols h v = (h\<lparr>symbols_objs := (symbols_objs h)(nxt h := v), nxt := Suc (nxt h)\<rparr>, nxt h)"

definition new_groups :: "heap \<Rightarrow> SymbolGroup list \<Rightarrow> heap \<times> addr" where
  "new_groups h v = (h\<lparr>groups_arrays := (groups_arrays h)(nxt h := v), nxt := Suc (nxt h)\<rparr>, nxt h)"

definition new_filter :: "heap \<Rightarrow> jsobj list \<Rightarrow> heap \<times> addr" where
  "new_filter h v = (h\<lparr>filter_arrays := (filter_arrays h)(nxt h := v), nxt := Suc (nxt h)\<rparr>, nxt h)"

definition new_range :: "heap \<Rightarrow> num_or_null \<times> num_or_null \<Rightarrow> heap \<times> addr" where
  "new_range h v = (h\<lparr>range_arrays := (range_arrays h)(nxt h := v), nxt := Suc (nxt h)\<rparr>, nxt h)"

definition new_dict :: "heap \<Rightarrow> (addr, addr, addr) QueryDict \<Rightarrow> heap \<times> addr" where
  "new_dict h v = (h\<lparr>dicts := (dicts h)(nxt h := v), nxt := Suc (nxt h)\<rparr>, nxt h)"

text \<open>\<open>this.queryDict\<close>, read and updated in place.\<close>

definition queryDict :: "heap \<Rightarrow> addr \<Rightarrow> (addr, addr, addr) QueryDict" where
  "queryDict h this = dicts h (queries h this)"

definition set_queryDict ::
  "heap \<Rightarrow> addr \<Rightarrow> ((addr, addr, addr) QueryDict \<Rightarrow> (addr, addr, addr) QueryDict) \<Rightarrow> heap" where
  "set_queryDict h this f = h\<lparr>dicts := (dicts h)(queries h this := f (queryDict h this))\<rparr>"

text \<open>The empty object literal \<open>{}\<close> at type \<open>SymbolsDict\<close>.\<close>

definition no_symbols :: "'g SymbolsDict" where
  "no_symbols = \<lparr>query = None, tickers = None, symbolset = None, watchlist = None, groups = None\<rparr>"

section \<open>query.ts\<close>

definition new_Query :: "heap \<Rightarrow> heap \<times> addr" where
  "new_Query h =
     (let (h1, sy) = new_symbols h no_symbols;
          (h2, fl) = new_filter h1 [];
          (h3, rg) = new_range h2 (Num (Fin 0), Num (Fin 50));
          (h4, qd) = new_dict h3
            \<lparr>markets = Some [''america''],
             symbols = Some sy,
             options = Some (Some ''en''),
             columns = Some [''name'', ''close'', ''volume'', ''market_cap_basic''],
             filter_fld = Some fl,
             filter2 = None,
             sort_fld = Some \<lparr>sortBy = ''name'', sortOrder = asc, nullsFirst = None\<rparr>,
             range_fld = Some rg,
             preset = None,
             price_conversion = None\<rparr>
      in (h4\<lparr>queries := (queries h4)(nxt h4 := qd), nxt := Suc (nxt h4)\<rparr>, nxt h4))"

text \<open>Every builder method returns \<open>this\<close>; the model returns the heap it leaves.\<close>

definition select :: "heap \<Rightarrow> addr \<Rightarrow> string list \<Rightarrow> heap" where
  "select h this cols =
     (if length cols > 0 then set_queryDict h this (\<lambda>q. q\<lparr>columns := Some cols\<rparr>) else h)"

definition setMarkets :: "heap \<Rightarrow> addr \<Rightarrow> string list \<Rightarrow> heap" where
  "setMarkets h this ms =
     (if length ms > 0 then set_queryDict h this (\<lambda>q. q\<lparr>markets := Some ms\<rparr>) else h)"

text \<open>\<open>if (!this.queryDict.symbols) this.queryDict.symbols = {}\<close>, giving the object's address.\<close>

definition ensure_symbols :: "heap \<Rightarrow> addr \<Rightarrow> heap \<times> addr" where
  "ensure_symbols h this =
     (case symbols (queryDict h this) of
        Some sy \<Rightarrow> (h, sy)
      | None \<Rightarrow>
          (let (h1, sy) = new_symbols h no_symbols
           in (set_queryDict h1 this (\<lambda>q. q\<lparr>symbols := Some sy\<rparr>), sy)))"

definition setTickers :: "heap \<Rightarrow> addr \<Rightarrow> string list \<Rightarrow> heap" where
  "setTickers h this ts =
     (if length ts > 0 then
        (let (h1, sy) = ensure_symbols h this
         in h1\<lparr>symbols_objs := (symbols_objs h1)(sy := (symbols_objs h1 sy)\<lparr>tickers := Some ts\<rparr>)\<rparr>)
      else h)"

text \<open>\<open>if (!this.queryDict.symbols.groups) this.queryDict.symbols.groups = []\<close>.\<close>

definition ensure_groups :: "heap \<Rightarrow> addr \<Rightarrow> heap \<times> addr" where
  "ensure_groups h sy =
     (case groups (symbols_objs h sy) of
        Some gr \<Rightarrow> (h, gr)
      | None \<Rightarrow>
          (let (h1, gr) = new_groups h []
           in (h1\<lparr>symbols_objs := (symbols_objs h1)(sy := (symbols_objs h1 sy)\<lparr>groups := Some gr\<rparr>)\<rparr>,
               gr)))"

definition setIndex :: "heap \<Rightarrow> addr \<Rightarrow> string list \<Rightarrow> heap" where
  "setIndex h this indexes =
     (if length indexes > 0 then
        (let (h1, sy) = ensure_symbols h this;
             (h2, gr) = ensure_groups h1 sy
         in h2\<lparr>groups_arrays := (groups_arrays h2)
                 (gr := groups_arrays h2 gr @ [\<lparr>group_type = ''index'', group_values = indexes\<rparr>])\<rparr>)
      else h)"

text \<open>
  \<open>Query.where\<close>, here \<open>where_q\<close>: the loop pushes each expression in turn, by
  \<open>this.queryDict.filter.push(expr)\<close> on the array at \<open>fl\<close>.
\<close>

definition push_filter :: "addr \<Rightarrow> heap \<Rightarrow> jsobj \<Rightarrow> heap" where
  "push_filter fl h expr = h\<lparr>filter_arrays := (filter_arrays h)(fl := filter_arrays h fl @ [expr])\<rparr>"

definition where_q :: "heap \<Rightarrow> addr \<Rightarrow> jsobj list \<Rightarrow> heap" where
  "where_q h this expressions =
     (let (h1, fl) =
        (case filter_fld (queryDict h this) of
           Some fl \<Rightarrow> (h, fl)
         | None \<Rightarrow>
             (let (h1, fl) = new_filter h []
              in (set_queryDict h1 this (\<lambda>q. q\<lparr>filter_fld := Some fl\<rparr>), fl)))
      in foldl (push_filter fl) h1 expressions)"

definition where2 :: "heap \<Rightarrow> addr \<Rightarrow> jsobj \<Rightarrow> heap" where
  "where2 h this operation = set_queryDict h this (\<lambda>q. q\<lparr>filter2 := Some operation\<rparr>)"

text \<open>The two optional parameters default to \<open>true\<close> and \<open>false\<close>.\<close>

definition orderBy :: "heap \<Rightarrow> addr \<Rightarrow> string \<Rightarrow> bool option \<Rightarrow> bool option \<Rightarrow> heap" where
  "orderBy h this column ascending nulls =
     (let ascending' = (case ascending of None \<Rightarrow> True | Some b \<Rightarrow> b);
          nullsFirst' = (case nulls of None \<Rightarrow> False | Some b \<Rightarrow> b)
      in set_queryDict h this (\<lambda>q. q\<lparr>sort_fld :=
           Some \<lparr>sortBy = column,
                 sortOrder = (if ascending' then asc else desc),
                 nullsFirst = Some nullsFirst'\<rparr>\<rparr>))"

definition limit :: "heap \<Rightarrow> addr \<Rightarrow> number \<Rightarrow> heap" where
  "limit h this n =
     (case range_fld (queryDict h this) of
        None \<Rightarrow>
          (let (h1, rg) = new_range h (Num (Fin 0), Num n)
           in set_queryDict h1 this (\<lambda>q. q\<lparr>range_fld := Some rg\<rparr>))
      | Some rg \<Rightarrow>
          h\<lparr>range_arrays := (range_arrays h)
               (rg := (fst (range_arrays h rg),
                       Num (js_add (ToNumber (fst (range_arrays h rg))) n)))\<rparr>)"

definition offset :: "heap \<Rightarrow> addr \<Rightarrow> number \<Rightarrow> heap" where
  "offset h this n =
     (case range_fld (queryDict h this) of
        None \<Rightarrow>
          (let (h1, rg) = new_range h (Num n, Num (js_add n (Fin 50)))
           in set_queryDict h1 this (\<lambda>q. q\<lparr>range_fld := Some rg\<rparr>))
      | Some rg0 \<Rightarrow>
          (let currentLimit =
                 js_sub (ToNumber (snd (range_arrays h rg0))) (ToNumber (fst (range_arrays h rg0)));
               (h1, rg) = new_range h (Num n, Num (js_add n currentLimit))
           in set_queryDict h1 this (\<lambda>q. q\<lparr>range_fld := Some rg\<rparr>)))"

subsection \<open>copy, by way of JSON\<close>

text \<open>
  \<open>snapshot h qd\<close> is the whole value held at the query document \<open>qd\<close>, every reference
  followed. \<open>JSON.stringify\<close> reads it and normalises the parts of type \<open>any\<close> and the
  numbers of the range; the text it renders is identified with the document it denotes.
\<close>

definition read_symbols :: "heap \<Rightarrow> addr \<Rightarrow> SymbolsDoc" where
  "read_symbols h sy =
     (let c = symbols_objs h sy
      in \<lparr>query = query c, tickers = tickers c, symbolset = symbolset c,
          watchlist = watchlist c, groups = map_option (groups_arrays h) (groups c)\<rparr>)"

definition snapshot :: "heap \<Rightarrow> addr \<Rightarrow> QueryDoc" where
  "snapshot h qd =
     (let c = dicts h qd
      in \<lparr>markets = markets c,
          symbols = map_option (read_symbols h) (symbols c),
          options = options c,
          columns = columns c,
          filter_fld = map_option (filter_arrays h) (filter_fld c),
          filter2 = filter2 c,
          sort_fld = sort_fld c,
          range_fld = map_option (range_arrays h) (range_fld c),
          preset = preset c,
          price_conversion = price_conversion c\<rparr>)"

definition JSON_stringify :: "heap \<Rightarrow> addr \<Rightarrow> QueryDoc" where
  "JSON_stringify h qd =
     (let v = snapshot h qd
      in v\<lparr>filter_fld := map_option (map json_obj) (filter_fld v),
           filter2 := map_option json_obj (filter2 v),
           range_fld := map_option (map_prod json_num json_num) (range_fld v)\<rparr>)"

text \<open>\<open>JSON.parse\<close> builds the document out of fresh objects only.\<close>

definition parse_symbols :: "heap \<Rightarrow> SymbolsDoc \<Rightarrow> heap \<times> addr" where
  "parse_symbols h v =
     (let (h1, gr) =
        (case groups v of
           None \<Rightarrow> (h, None)
         | Some gs \<Rightarrow> (let (h1, a) = new_groups h gs in (h1, Some a)))
      in new_symbols h1
           \<lparr>query = query v, tickers = tickers v, symbolset = symbolset v,
            watchlist = watchlist v, groups = gr\<rparr>)"

definition JSON_parse :: "heap \<Rightarrow> QueryDoc \<Rightarrow> heap \<times> addr" where
  "JSON_parse h v =
     (let (h1, sy) =
        (case symbols v of
           None \<Rightarrow> (h, None)
         | Some sv \<Rightarrow> (let (h1, a) = parse_symbols h sv in (h1, Some a)));
          (h2, fl) =
        (case filter_fld v of
           None \<Rightarrow> (h1, None)
         | Some es \<Rightarrow> (let (h2, a) = new_filter h1 es in (h2, Some a)));
          (h3, rg) =
        (case range_fld v of
           None \<Rightarrow> (h2, None)
         | Some r \<Rightarrow> (let (h3, a) = new_range h2 r in (h3, Some a)))
      in new_dict h3
           \<lparr>markets = markets v, symbols = sy, options = options v, columns = columns v,
            filter_fld = fl, filter2 = filter2 v, sort_fld = sort_fld v, range_fld = rg,
            preset = preset v, price_conversion = price_conversion v\<rparr>)"

definition copy :: "heap \<Rightarrow> addr \<Rightarrow> heap \<times> addr" where
  "copy h this =
     (let (h1, newQuery) = new_Query h;
          (h2, qd) = JSON_parse h1 (JSON_stringify h1 (queries h1 this))
      in (h2\<lparr>queries := (queries h2)(newQuery := qd)\<rparr>, newQuery))"

definition getQueryDict :: "heap \<Rightarrow> addr \<Rightarrow> addr" where
  "getQueryDict h this = queries h this"

definition toJSON :: "heap \<Rightarrow> addr \<Rightarrow> QueryDoc" where
  "toJSON h this = JSON_stringify h (queries h this)"

subsection \<open>getScannerData\<close>

text \<open>
  \<open>ScreenerDict\<close> is a \<open>ScreenerRowDict Scan\<close> and \<open>ScannerData\<close> a \<open>js_object Scan\<close>; the
  properties \<open>s\<close> and \<open>d\<close> of a row are \<open>row_s\<close> and \<open>row_d\<close>. The transport is outside
  the model: \<open>getScannerData\<close> takes what \<open>getScannerDataRaw\<close> gave, a response or the
  error it threw.
\<close>

record ScreenerRowDict =
  row_s :: string
  row_d :: "jsany list"

record 'r Scan =
  totalCount :: rat
  data :: "'r list"

datatype error = RequestFailed nat string

text \<open>The body of the \<open>map\<close> callback: one record from one row.\<close>

definition format_row :: "string list \<Rightarrow> ScreenerRowDict \<Rightarrow> js_object" where
  "format_row cols row =
     foldl (\<lambda>obj (c, index). assign obj c (js_nth (row_d row) index))
       \<lparr>own_props = [(''symbol'', JStr (row_s row))], prototype_of = ObjectPrototype\<rparr>
       (zip cols [0..<length cols])"

definition getScannerData ::
  "heap \<Rightarrow> addr \<Rightarrow> error + ScreenerRowDict Scan \<Rightarrow> error + js_object Scan" where
  "getScannerData h this response =
     (case response of
        Inl e \<Rightarrow> Inl e
      | Inr rawData \<Rightarrow>
          (let cols = (case columns (queryDict h this) of None \<Rightarrow> [] | Some cs \<Rightarrow> cs);
               formattedData = map (format_row cols) (data rawData)
           in Inr \<lparr>totalCount = totalCount rawData, data = formattedData\<rparr>))"

section \<open>Chains of builder calls\<close>

datatype call =
    Select "string list"
  | SetMarkets "string list"
  | SetTickers "string list"
  | SetIndex "string list"
  | Where "jsobj list"
  | Where2 jsobj
  | OrderBy string "bool option" "bool option"
  | Limit number
  | Offset number
  | Copy

text \<open>One call on the builder \<open>this\<close>: the heap it leaves and the builder it returns.\<close>

fun invoke :: "heap \<times> addr \<Rightarrow> call \<Rightarrow> heap \<times> addr" where
  "invoke (h, this) (Select cols) = (select h this cols, this)"
| "invoke (h, this) (SetMarkets ms) = (setMarkets h this ms, this)"
| "invoke (h, this) (SetTickers ts) = (setTickers h this ts, this)"
| "invoke (h, this) (SetIndex ixs) = (setIndex h this ixs, this)"
| "invoke (h, this) (Where es) = (where_q h this es, this)"
| "invoke (h, this) (Where2 e) = (where2 h this e, this)"
| "invoke (h, this) (OrderBy c a n) = (orderBy h this c a n, this)"
| "invoke (h, this) (Limit n) = (limit h this n, this)"
| "invoke (h, this) (Offset n) = (offset h this n, this)"
| "invoke (h, this) Copy = copy h this"

definition chain :: "heap \<times> addr \<Rightarrow> call list \<Rightarrow> heap \<times> addr" where
  "chain st calls = foldl invoke st calls"

text \<open>What a builder holds, as a value.\<close>

definition state :: "heap \<Rightarrow> addr \<Rightarrow> QueryDoc" where
  "state h this = snapshot h (queries h this)"

text \<open>A heap with nothing allocated.\<close>

definition heap0 :: heap where
  "heap0 =
     \<lparr>queries = (\<lambda>a. 0),
      dicts = (\<lambda>a. \<lparr>markets = None, symbols = None, options = None, columns = None,
                    filter_fld = None, filter2 = None, sort_fld = None, range_fld = None,
                    preset = None, price_conversion = None\<rparr>),
      symbols_objs = (\<lambda>a. no_symbols),
      groups_arrays = (\<lambda>a. []),
      filter_arrays = (\<lambda>a. []),
      range_arrays = (\<lambda>a. (Num (Fin 0), Num (Fin 0))),
      nxt = 0\<rparr>"


section \<open>Footprints and invariants\<close>

text \<open>
  The objects a builder reaches: itself, its query document, and the \<open>symbols\<close> object and
  the \<open>groups\<close>, \<open>filter\<close> and \<open>range\<close> arrays under that document.
\<close>

definition dict_cells :: "heap \<Rightarrow> addr \<Rightarrow> addr set" where
  "dict_cells h qd =
     set_option (symbols (dicts h qd))
     \<union> set_option (Option.bind (symbols (dicts h qd)) (\<lambda>sy. groups (symbols_objs h sy)))
     \<union> set_option (filter_fld (dicts h qd))
     \<union> set_option (range_fld (dicts h qd))"

definition cells :: "heap \<Rightarrow> addr \<Rightarrow> addr set" where
  "cells h this = {this, queries h this} \<union> dict_cells h (queries h this)"

text \<open>A builder of the heap: everything it reaches has been allocated.\<close>

definition allocated :: "heap \<Rightarrow> addr \<Rightarrow> bool" where
  "allocated h this = (\<forall>a \<in> cells h this. a < nxt h)"

definition same_at :: "heap \<Rightarrow> heap \<Rightarrow> addr \<Rightarrow> bool" where
  "same_at h h' a =
     (queries h' a = queries h a \<and> dicts h' a = dicts h a \<and>
      symbols_objs h' a = symbols_objs h a \<and> groups_arrays h' a = groups_arrays h a \<and>
      filter_arrays h' a = filter_arrays h a \<and> range_arrays h' a = range_arrays h a)"

text \<open>From \<open>h\<close> to \<open>h'\<close>, allocated objects outside \<open>W\<close> are not written.\<close>

definition writes_within :: "heap \<Rightarrow> heap \<Rightarrow> addr set \<Rightarrow> bool" where
  "writes_within h h' W = (nxt h \<le> nxt h' \<and> (\<forall>a. a < nxt h \<and> a \<notin> W \<longrightarrow> same_at h h' a))"

definition extends :: "heap \<Rightarrow> heap \<Rightarrow> bool" where
  "extends h h' = (nxt h \<le> nxt h' \<and> (\<forall>a. a < nxt h \<longrightarrow> same_at h h' a))"

text \<open>
  The effect of a call on \<open>this\<close> with result \<open>r\<close>: it writes only what \<open>this\<close> reached
  or what is new, and the builder it returns reaches nothing else.
\<close>

definition effect :: "heap \<Rightarrow> addr \<Rightarrow> heap \<times> addr \<Rightarrow> bool" where
  "effect h this r =
     (writes_within h (fst r) (cells h this) \<and>
      cells (fst r) (snd r) \<subseteq> cells h this \<union> {nxt h ..< nxt (fst r)})"






text \<open>The calls that touch neither the filters nor the symbol selection.\<close>

fun untouching :: "call \<Rightarrow> bool" where
  "untouching (SetTickers ts) = False"
| "untouching (SetIndex ixs) = False"
| "untouching (Where es) = False"
| "untouching (Where2 e) = False"
| "untouching c = True"

text \<open>The ticker list and the group list of a builder's symbol selection.\<close>

definition selected_tickers :: "heap \<Rightarrow> addr \<Rightarrow> string list option" where
  "selected_tickers h this = Option.bind (symbols (state h this)) tickers"

definition selected_groups :: "heap \<Rightarrow> addr \<Rightarrow> SymbolGroup list option" where
  "selected_groups h this = Option.bind (symbols (state h this)) groups"

text \<open>
  The mapped record as the specification words it,
  \<open>{symbol} \<union> {columns[i]: values[i] for each i}\<close>: the map that sends \<open>symbol\<close> to the
  row's symbol, updated with every column name in turn.
\<close>

definition spec_record :: "string list \<Rightarrow> ScreenerRowDict \<Rightarrow> (string \<rightharpoonup> jsany)" where
  "spec_record cols row =
     [''symbol'' \<mapsto> JStr (row_s row)]
       (cols [\<mapsto>] map (js_nth (row_d row)) [0..<length cols])"

text \<open>
  The document of a builder whose filters and symbol selection are as constructed: an
  empty \<open>filter\<close> list and an empty \<open>symbols\<close> object are there, \<open>filter2\<close> is not.
\<close>

definition placeholders :: "QueryDoc \<Rightarrow> bool" where
  "placeholders v =
     (filter_fld v = Some [] \<and> symbols v = Some no_symbols \<and> filter2 v = None \<and>
      markets v \<noteq> None \<and> sort_fld v \<noteq> None \<and> range_fld v \<noteq> None)"

section \<open>Lemmas on numbers\<close>

text \<open>Rounding leaves a value of the form \<open>m * 2 ^ e\<close> with a 53-bit \<open>m\<close> as it is.\<close>

lemma round_even_of_int: "round_even (of_int z) = z"
  by (simp add: round_even_def)

lemma ilog2_lower:
  assumes "1 \<le> \<bar>x\<bar>"
  shows "(2::rat) powi ilog2 x \<le> \<bar>x\<bar>"
proof -
  let ?n = "\<lfloor>\<bar>x\<bar>\<rfloor>"
  have n: "0 < ?n"
    using assms by linarith
  then have b: "1 \<le> bitlen ?n"
    by (simp add: bitlen_ge_iff_power)
  have "(2::int) ^ nat (bitlen ?n - 1) \<le> ?n"
    using bitlen_bounds [OF n] by simp
  then have "(of_int ((2::int) ^ nat (bitlen ?n - 1)) :: rat) \<le> of_int ?n"
    by (simp only: of_int_le_iff)
  also have "\<dots> \<le> \<bar>x\<bar>"
    by (rule of_int_floor_le)
  finally have "(2::rat) ^ nat (bitlen ?n - 1) \<le> \<bar>x\<bar>"
    by simp
  then show ?thesis
    using assms b by (simp add: ilog2_def power_int_nonneg_exp)
qed

lemma to_double_representable:
  assumes x: "x = of_int m * 2 powi e" and m: "\<bar>m\<bar> < 2 ^ 53" and e: "- 1074 \<le> e"
    and x1: "1 \<le> \<bar>x\<bar>"
  shows "to_double x = (if 2 ^ 1024 \<le> \<bar>x\<bar> then (if 0 < x then PInf else NInf) else Fin x)"
proof -
  define E where "E = max (- 1074) (ilog2 x - 52)"
  have "(2::rat) powi ilog2 x \<le> \<bar>x\<bar>"
    by (rule ilog2_lower [OF x1])
  also have "\<bar>x\<bar> = of_int \<bar>m\<bar> * 2 powi e"
    by (simp add: x abs_mult)
  also have "\<dots> < 2 ^ 53 * 2 powi e"
  proof -
    have "(of_int \<bar>m\<bar> :: rat) < of_int (2 ^ 53)"
      using m by (simp only: of_int_less_iff)
    then show ?thesis
      by (simp add: mult_strict_right_mono)
  qed
  also have "\<dots> = (2::rat) powi (53 + e)"
    by (simp add: power_int_add)
  finally have "ilog2 x < 53 + e"
    by (metis power_int_increasing linorder_not_le one_le_numeral)
  then have Ee: "E \<le> e"
    using e by (simp add: E_def)
  have x0: "x \<noteq> 0"
    using x1 by auto
  have "x / 2 powi E = of_int m * 2 powi (e - E)"
    by (simp add: x power_int_diff)
  also have "\<dots> = of_int (m * 2 ^ nat (e - E))"
    using Ee by (simp add: power_int_nonneg_exp)
  finally have q: "x / 2 powi E = of_int (m * 2 ^ nat (e - E))" .
  have "of_int (round_even (x / 2 powi E)) * 2 powi E = (x / 2 powi E) * 2 powi E"
    by (simp only: q round_even_of_int)
  also have "\<dots> = x"
    by simp
  finally have y: "of_int (round_even (x / 2 powi E)) * 2 powi E = x" .
  show ?thesis
    using x0 by (simp add: to_double_def Let_def E_def [symmetric] y)
qed

lemma to_double_integer:
  assumes "x \<in> \<int>" and "\<bar>x\<bar> \<le> 2 ^ 53"
  shows "to_double x = Fin x"
proof (cases "x = 0")
  case True
  then show ?thesis by (simp add: to_double_def)
next
  case False
  obtain z where z: "x = of_int z"
    using assms(1) by (auto elim: Ints_cases)
  have z0: "z \<noteq> 0" and zb: "\<bar>z\<bar> \<le> 2 ^ 53"
    using False assms(2) unfolding z
    by (simp, metis of_int_abs of_int_le_iff of_int_numeral of_int_power)
  have x1: "1 \<le> \<bar>x\<bar>"
    using z0 by (simp add: z)
  have small: "\<bar>x\<bar> < 2 ^ 1024"
  proof -
    have "\<bar>x\<bar> \<le> 2 ^ 53" by (rule assms(2))
    also have "\<dots> < (2::rat) ^ 1024" by (rule power_strict_increasing) simp_all
    finally show ?thesis .
  qed
  show ?thesis
  proof (cases "\<bar>z\<bar> < 2 ^ 53")
    case True
    have "to_double x = (if 2 ^ 1024 \<le> \<bar>x\<bar> then (if 0 < x then PInf else NInf) else Fin x)"
      by (rule to_double_representable [of x z 0]) (use True x1 in \<open>simp_all add: z\<close>)
    then show ?thesis
      using small by simp
  next
    case False
    then have "\<bar>z\<bar> = 2 ^ 53"
      using zb by simp
    then consider "z = 2 ^ 53" | "z = - (2 ^ 53)"
      by linarith
    then have "x = of_int (z div 2) * 2 powi 1 \<and> \<bar>z div 2\<bar> < 2 ^ 53"
      by cases (simp_all add: z)
    then have "to_double x = (if 2 ^ 1024 \<le> \<bar>x\<bar> then (if 0 < x then PInf else NInf) else Fin x)"
      using x1 by (intro to_double_representable [of x "z div 2" 1]) simp_all
    then show ?thesis
      using small by simp
  qed
qed









section \<open>Lemmas on the heap\<close>

lemmas heap_defs = new_symbols_def new_filter_def new_range_def new_dict_def new_groups_def
  queryDict_def set_queryDict_def ensure_symbols_def ensure_groups_def no_symbols_def

lemmas state_defs = state_def snapshot_def read_symbols_def Let_def

lemma foldl_push_filter:
  "foldl (push_filter fl) h es = h\<lparr>filter_arrays := (filter_arrays h)(fl := filter_arrays h fl @ es)\<rparr>"
  by (induction es arbitrary: h) (simp_all add: push_filter_def)

text \<open>What a builder holds depends on the objects it reaches only.\<close>

lemma local_read:
  assumes "\<forall>a \<in> cells h q. same_at h h' a"
  shows "state h' q = state h q" and "cells h' q = cells h q"
proof -
  let ?d = "dicts h (queries h q)"
  have q: "queries h' q = queries h q" and d: "dicts h' (queries h q) = ?d"
    using assms by (simp_all add: cells_def dict_cells_def same_at_def)
  have sy: "symbols_objs h' sy = symbols_objs h sy" if "symbols ?d = Some sy" for sy
    using assms that by (simp add: cells_def dict_cells_def same_at_def queryDict_def)
  have gr: "groups_arrays h' gr = groups_arrays h gr"
    if "symbols ?d = Some sy" "groups (symbols_objs h sy) = Some gr" for sy gr
    using assms that by (simp add: cells_def dict_cells_def same_at_def queryDict_def)
  have fl: "filter_arrays h' fl = filter_arrays h fl" if "filter_fld ?d = Some fl" for fl
    using assms that by (simp add: cells_def dict_cells_def same_at_def queryDict_def)
  have rg: "range_arrays h' rg = range_arrays h rg" if "range_fld ?d = Some rg" for rg
    using assms that by (simp add: cells_def dict_cells_def same_at_def queryDict_def)
  have rs: "read_symbols h' sy = read_symbols h sy" if "symbols ?d = Some sy" for sy
    using sy [OF that] gr [OF that]
    by (cases "groups (symbols_objs h sy)") (simp_all add: read_symbols_def)
  have "map_option (read_symbols h') (symbols ?d) = map_option (read_symbols h) (symbols ?d)"
    using rs by (cases "symbols ?d") simp_all
  moreover have
    "map_option (filter_arrays h') (filter_fld ?d) = map_option (filter_arrays h) (filter_fld ?d)"
    using fl by (cases "filter_fld ?d") simp_all
  moreover have
    "map_option (range_arrays h') (range_fld ?d) = map_option (range_arrays h) (range_fld ?d)"
    using rg by (cases "range_fld ?d") simp_all
  ultimately show "state h' q = state h q"
    by (simp add: state_def snapshot_def q d)
  have "Option.bind (symbols ?d) (\<lambda>sy. groups (symbols_objs h' sy))
      = Option.bind (symbols ?d) (\<lambda>sy. groups (symbols_objs h sy))"
    using sy by (cases "symbols ?d") simp_all
  then show "cells h' q = cells h q"
    by (simp add: cells_def dict_cells_def queryDict_def q d)
qed

subsection \<open>The effect of each method\<close>

lemma select_effect: "allocated h this \<Longrightarrow> effect h this (select h this cs, this)"
  by (auto simp: effect_def writes_within_def allocated_def select_def heap_defs cells_def
      dict_cells_def same_at_def split: option.splits Option.bind_splits)

lemma setMarkets_effect: "allocated h this \<Longrightarrow> effect h this (setMarkets h this ms, this)"
  by (auto simp: effect_def writes_within_def allocated_def setMarkets_def heap_defs cells_def
      dict_cells_def same_at_def split: option.splits Option.bind_splits)

lemma setTickers_effect: "allocated h this \<Longrightarrow> effect h this (setTickers h this ts, this)"
  by (auto simp: effect_def writes_within_def allocated_def setTickers_def heap_defs cells_def
      dict_cells_def same_at_def split: option.splits Option.bind_splits)

lemma setIndex_effect: "allocated h this \<Longrightarrow> effect h this (setIndex h this ixs, this)"
  by (auto simp: effect_def writes_within_def allocated_def setIndex_def heap_defs cells_def
      dict_cells_def same_at_def split: option.splits Option.bind_splits)

lemma where_q_effect: "allocated h this \<Longrightarrow> effect h this (where_q h this es, this)"
  by (auto simp: effect_def writes_within_def allocated_def where_q_def foldl_push_filter
      heap_defs cells_def dict_cells_def same_at_def split: option.splits Option.bind_splits)

lemma where2_effect: "allocated h this \<Longrightarrow> effect h this (where2 h this e, this)"
  by (auto simp: effect_def writes_within_def allocated_def where2_def heap_defs cells_def
      dict_cells_def same_at_def split: option.splits Option.bind_splits)

lemma orderBy_effect: "allocated h this \<Longrightarrow> effect h this (orderBy h this c a n, this)"
  by (auto simp: effect_def writes_within_def allocated_def orderBy_def heap_defs cells_def
      dict_cells_def same_at_def split: option.splits Option.bind_splits)

lemma limit_effect: "allocated h this \<Longrightarrow> effect h this (limit h this n, this)"
  by (auto simp: effect_def writes_within_def allocated_def limit_def heap_defs cells_def
      dict_cells_def same_at_def split: option.splits Option.bind_splits)

lemma offset_effect: "allocated h this \<Longrightarrow> effect h this (offset h this n, this)"
  by (auto simp: effect_def writes_within_def allocated_def offset_def heap_defs cells_def
      dict_cells_def same_at_def Let_def split: option.splits Option.bind_splits)

subsection \<open>Construction, parsing and copying only add to the heap\<close>

lemma extends_trans: "extends h h1 \<Longrightarrow> extends h1 h2 \<Longrightarrow> extends h h2"
  by (fastforce simp: extends_def same_at_def)

lemma new_Query_extends: "extends h (fst (new_Query h))"
  by (simp add: extends_def same_at_def new_Query_def heap_defs)

lemma new_Query_nxt: "nxt (fst (new_Query h)) = nxt h + 5" "snd (new_Query h) = nxt h + 4"
  by (simp_all add: new_Query_def heap_defs)

lemma new_Query_allocated: "allocated (fst (new_Query h)) (snd (new_Query h))"
  by (simp add: allocated_def cells_def dict_cells_def new_Query_def heap_defs)

lemma new_Query_state:
  "state (fst (new_Query h)) (snd (new_Query h)) =
     \<lparr>markets = Some [''america''], symbols = Some no_symbols, options = Some (Some ''en''),
      columns = Some [''name'', ''close'', ''volume'', ''market_cap_basic''],
      filter_fld = Some [], filter2 = None,
      sort_fld = Some \<lparr>sortBy = ''name'', sortOrder = asc, nullsFirst = None\<rparr>,
      range_fld = Some (Num (Fin 0), Num (Fin 50)), preset = None, price_conversion = None\<rparr>"
  by (simp add: new_Query_def state_defs heap_defs)

lemma JSON_parse_extends: "extends h (fst (JSON_parse h v))"
  by (simp add: JSON_parse_def parse_symbols_def heap_defs extends_def same_at_def Let_def
      split: option.splits prod.splits)

text \<open>Parsing a document builds objects that hold that document.\<close>

lemma JSON_parse_snapshot: "snapshot (fst (JSON_parse h v)) (snd (JSON_parse h v)) = v"
  by (simp add: JSON_parse_def parse_symbols_def heap_defs snapshot_def read_symbols_def Let_def
      split: option.splits prod.splits)

lemma JSON_parse_cells:
  "insert (snd (JSON_parse h v)) (dict_cells (fst (JSON_parse h v)) (snd (JSON_parse h v)))
     \<subseteq> {nxt h ..< nxt (fst (JSON_parse h v))}"
  by (simp add: JSON_parse_def parse_symbols_def heap_defs dict_cells_def Let_def
      split: option.splits prod.splits)

lemma extends_read:
  assumes "extends h h'" and "allocated h q"
  shows "state h' q = state h q" and "cells h' q = cells h q" and "queries h' q = queries h q"
proof -
  have *: "\<forall>a \<in> cells h q. same_at h h' a"
    using assms by (simp add: extends_def allocated_def)
  show "state h' q = state h q" and "cells h' q = cells h q"
    using * by (rule local_read)+
  show "queries h' q = queries h q"
    using * by (simp add: cells_def same_at_def)
qed

lemma copy_unfold:
  "copy h this =
     (let h1 = fst (new_Query h);
          p = JSON_parse h1 (JSON_stringify h1 (queries h1 this))
      in ((fst p)\<lparr>queries := (queries (fst p))(nxt h + 4 := snd p)\<rparr>, nxt h + 4))"
  by (simp add: copy_def Let_def case_prod_beta new_Query_nxt)

lemma copy_extends: "extends h (fst (copy h this))"
proof -
  let ?h1 = "fst (new_Query h)"
  let ?p = "JSON_parse ?h1 (JSON_stringify ?h1 (queries ?h1 this))"
  have "extends h (fst ?p)"
    using new_Query_extends JSON_parse_extends by (rule extends_trans)
  then show ?thesis
    by (simp add: copy_unfold Let_def extends_def same_at_def)
qed

text \<open>Everything the copy reaches is new.\<close>

lemma copy_cells:
  "cells (fst (copy h this)) (snd (copy h this)) \<subseteq> {nxt h ..< nxt (fst (copy h this))}"
proof -
  let ?h1 = "fst (new_Query h)"
  let ?p = "JSON_parse ?h1 (JSON_stringify ?h1 (queries ?h1 this))"
  have sub: "insert (snd ?p) (dict_cells (fst ?p) (snd ?p)) \<subseteq> {nxt ?h1 ..< nxt (fst ?p)}"
    by (rule JSON_parse_cells)
  have n1: "nxt ?h1 = nxt h + 5"
    by (rule new_Query_nxt)
  have "cells (fst (copy h this)) (snd (copy h this))
      = insert (nxt h + 4) (insert (snd ?p) (dict_cells (fst ?p) (snd ?p)))"
    by (simp add: copy_unfold Let_def cells_def dict_cells_def)
  moreover have "nxt (fst (copy h this)) = nxt (fst ?p)"
    by (simp add: copy_unfold Let_def)
  ultimately show ?thesis
    using sub n1 by auto
qed

lemma read_symbols_queries: "read_symbols (h\<lparr>queries := f\<rparr>) = read_symbols h"
  by (rule ext) (simp add: read_symbols_def)

text \<open>The copy holds the JSON document of the original.\<close>

lemma copy_state:
  assumes "allocated h this"
  shows "state (fst (copy h this)) (snd (copy h this)) = toJSON h this"
proof -
  let ?h1 = "fst (new_Query h)"
  let ?p = "JSON_parse ?h1 (JSON_stringify ?h1 (queries ?h1 this))"
  have "state (fst (copy h this)) (snd (copy h this)) = snapshot (fst ?p) (snd ?p)"
    by (simp add: copy_unfold Let_def state_def snapshot_def read_symbols_queries)
  also have "\<dots> = JSON_stringify ?h1 (queries ?h1 this)"
    by (rule JSON_parse_snapshot)
  also have "\<dots> = JSON_stringify h (queries h this)"
    using extends_read [OF new_Query_extends assms]
    by (simp add: JSON_stringify_def state_def)
  finally show ?thesis
    by (simp add: toJSON_def)
qed

lemma copy_effect: "effect h this (copy h this)"
  using copy_extends [of h this] copy_cells [of h this]
  by (auto simp: effect_def writes_within_def extends_def)

subsection \<open>Frames\<close>

lemma invoke_effect: "allocated h this \<Longrightarrow> effect h this (invoke (h, this) c)"
  by (cases c) (simp_all add: select_effect setMarkets_effect setTickers_effect setIndex_effect
      where_q_effect where2_effect orderBy_effect limit_effect offset_effect copy_effect)

lemma step_frame:
  assumes q: "allocated h q" and t: "allocated h this" and ap: "cells h q \<inter> cells h this = {}"
    and eff: "effect h this (h', this')"
  shows "state h' q = state h q" and "cells h' q = cells h q" and "allocated h' q"
    and "allocated h' this'" and "cells h' q \<inter> cells h' this' = {}"
proof -
  have le: "nxt h \<le> nxt h'"
    and same: "\<And>a. a < nxt h \<Longrightarrow> a \<notin> cells h this \<Longrightarrow> same_at h h' a"
    and sub: "cells h' this' \<subseteq> cells h this \<union> {nxt h ..< nxt h'}"
    using eff by (auto simp: effect_def writes_within_def)
  have "\<forall>a \<in> cells h q. same_at h h' a"
    using q ap same by (auto simp: allocated_def)
  then show st: "state h' q = state h q" and cq: "cells h' q = cells h q"
    by (rule local_read)+
  show "allocated h' q"
    using q le by (auto simp: allocated_def cq)
  show "allocated h' this'"
    using t le sub by (fastforce simp: allocated_def)
  show "cells h' q \<inter> cells h' this' = {}"
    using q ap sub by (fastforce simp: allocated_def cq)
qed

lemma invoke_allocated:
  assumes "allocated h this"
  shows "allocated (fst (invoke (h, this) c)) (snd (invoke (h, this) c))"
proof -
  have "effect h this (invoke (h, this) c)"
    by (rule invoke_effect [OF assms])
  then have "nxt h \<le> nxt (fst (invoke (h, this) c))"
    and "cells (fst (invoke (h, this) c)) (snd (invoke (h, this) c))
           \<subseteq> cells h this \<union> {nxt h ..< nxt (fst (invoke (h, this) c))}"
    by (simp_all add: effect_def writes_within_def)
  then show ?thesis
    using assms by (fastforce simp: allocated_def)
qed

text \<open>Calls chained on one builder never change what a builder apart from it holds.\<close>

lemma chain_frame:
  assumes "allocated h q" and "allocated h this" and "cells h q \<inter> cells h this = {}"
  shows "state (fst (chain (h, this) calls)) q = state h q \<and>
         allocated (fst (chain (h, this) calls)) q \<and>
         allocated (fst (chain (h, this) calls)) (snd (chain (h, this) calls)) \<and>
         cells (fst (chain (h, this) calls)) q \<inter>
           cells (fst (chain (h, this) calls)) (snd (chain (h, this) calls)) = {}"
  using assms
proof (induction calls arbitrary: h this)
  case Nil
  then show ?case by (simp add: chain_def)
next
  case (Cons c calls)
  obtain h' this' where r: "invoke (h, this) c = (h', this')"
    by (cases "invoke (h, this) c")
  have eff: "effect h this (h', this')"
    using invoke_effect [OF Cons.prems(2), of c] by (simp add: r)
  note fr = step_frame [OF Cons.prems eff]
  have "chain (h, this) (c # calls) = chain (h', this') calls"
    by (simp add: chain_def r)
  then show ?case
    using Cons.IH [OF fr(3) fr(4) fr(5)] fr(1) by simp
qed

subsection \<open>The range, the placeholders and the symbol selection under each method\<close>








lemma range_limit:
  "range_fld (state (limit h this n) this) =
     (case range_fld (state h this) of
        None \<Rightarrow> Some (Num (Fin 0), Num n)
      | Some r \<Rightarrow> Some (fst r, Num (js_add (ToNumber (fst r)) n)))"
  by (simp add: limit_def state_defs heap_defs split: option.splits)

lemma range_offset:
  "range_fld (state (offset h this n) this) =
     (case range_fld (state h this) of
        None \<Rightarrow> Some (Num n, Num (js_add n (Fin 50)))
      | Some r \<Rightarrow> Some (Num n, Num (js_add n (js_sub (ToNumber (snd r)) (ToNumber (fst r))))))"
  by (simp add: offset_def state_defs heap_defs split: option.splits)

lemma toJSON_state:
  "toJSON h this =
     (state h this)\<lparr>filter_fld := map_option (map json_obj) (filter_fld (state h this)),
                     filter2 := map_option json_obj (filter2 (state h this)),
                     range_fld := map_option (map_prod json_num json_num)
                                    (range_fld (state h this))\<rparr>"
  by (simp add: toJSON_def JSON_stringify_def state_def Let_def)










lemma placeholders_toJSON: "placeholders (state h this) \<Longrightarrow> placeholders (toJSON h this)"
  by (simp add: placeholders_def toJSON_state)

lemma invoke_placeholders:
  assumes "allocated h this" and "placeholders (state h this)" and "untouching c"
  shows "placeholders (state (fst (invoke (h, this) c)) (snd (invoke (h, this) c)))"
proof (cases c)
  case (Select cs)
  then show ?thesis
    using assms(2) by (simp add: placeholders_def select_def state_defs heap_defs)
next
  case (SetMarkets ms)
  then show ?thesis
    using assms(2) by (simp add: placeholders_def setMarkets_def state_defs heap_defs)
next
  case (OrderBy c a n)
  then show ?thesis
    using assms(2) by (simp add: placeholders_def orderBy_def state_defs heap_defs)
next
  case (Limit n)
  then show ?thesis
    using assms(2)
    by (simp add: placeholders_def limit_def state_defs heap_defs split: option.splits)
next
  case (Offset n)
  then show ?thesis
    using assms(2)
    by (simp add: placeholders_def offset_def state_defs heap_defs split: option.splits)
next
  case Copy
  then show ?thesis
    using placeholders_toJSON [OF assms(2)] by (simp add: copy_state [OF assms(1)])
qed (use assms(3) in simp_all)

lemma chain_placeholders:
  assumes "allocated h this" and "placeholders (state h this)"
    and "\<forall>c \<in> set calls. untouching c"
  shows "placeholders (state (fst (chain (h, this) calls)) (snd (chain (h, this) calls)))"
  using assms
proof (induction calls arbitrary: h this)
  case Nil
  then show ?case by (simp add: chain_def)
next
  case (Cons c calls)
  let ?r = "invoke (h, this) c"
  have "chain (h, this) (c # calls) = chain (fst ?r, snd ?r) calls"
    by (simp add: chain_def)
  moreover have "allocated (fst ?r) (snd ?r)"
    by (rule invoke_allocated [OF Cons.prems(1)])
  moreover have "placeholders (state (fst ?r) (snd ?r))"
    using Cons.prems by (simp add: invoke_placeholders)
  ultimately show ?case
    using Cons.IH [of "fst ?r" "snd ?r"] Cons.prems(3) by simp
qed

lemmas sel_defs = selected_tickers_def selected_groups_def

lemma setTickers_sel:
  assumes "ts \<noteq> []"
  shows "selected_tickers (setTickers h this ts) this = Some ts"
    and "selected_groups (setTickers h this ts) this = selected_groups h this"
  using assms
  by (simp_all add: sel_defs setTickers_def state_defs heap_defs split: option.splits)

lemma setIndex_sel:
  assumes "ixs \<noteq> []"
  shows "selected_groups (setIndex h this ixs) this =
           Some ((case selected_groups h this of None \<Rightarrow> [] | Some gs \<Rightarrow> gs)
                 @ [\<lparr>group_type = ''index'', group_values = ixs\<rparr>])"
    and "selected_tickers (setIndex h this ixs) this = selected_tickers h this"
  using assms
  by (simp_all add: sel_defs setIndex_def state_defs heap_defs split: option.splits)

lemma setIndex_nil: "setIndex h this [] = h"
  by (simp add: setIndex_def)

section \<open>Lemmas on objects\<close>

lemma map_of_put: "map_of (put obj k v) = (map_of obj)(k \<mapsto> v)"
  by (induction obj) (auto simp: fun_upd_twist)

lemma keys_put:
  "map fst (put obj k v) = (if k \<in> fst ` set obj then map fst obj else map fst obj @ [k])"
  by (induction obj) (force split: if_splits)+

lemma distinct_put: "distinct (map fst obj) \<Longrightarrow> distinct (map fst (put obj k v))"
  by (simp add: keys_put)

lemma fold_put:
  "length cs = length ns \<Longrightarrow>
   map_of (foldl (\<lambda>obj (c, index). put obj c (g index)) obj (zip cs ns))
     = (map_of obj)(cs [\<mapsto>] map g ns)"
  by (induction cs ns arbitrary: obj rule: list_induct2) (simp_all add: map_of_put)

lemma fold_put_distinct:
  "distinct (map fst obj) \<Longrightarrow>
   distinct (map fst (foldl (\<lambda>obj (c, index). put obj c (g index)) obj kis))"
  by (induction kis arbitrary: obj) (auto simp: distinct_put)

lemma map_upds_nth:
  assumes "distinct xs" and "length xs = length ys" and "i < length xs"
  shows "(m(xs [\<mapsto>] ys)) (xs ! i) = Some (ys ! i)"
proof -
  have "distinct (map fst (rev (zip xs ys)))"
    using assms(1,2) by (simp add: rev_map [symmetric])
  moreover have "(xs ! i, ys ! i) \<in> set (rev (zip xs ys))"
    using assms(2,3) by (auto simp: in_set_zip)
  ultimately have "map_of (rev (zip xs ys)) (xs ! i) = Some (ys ! i)"
    by (simp only: map_of_eq_Some_iff)
  then show ?thesis
    by (simp add: map_upds_def map_add_def)
qed

text \<open>With no column named \<open>__proto__\<close>, every assignment sets an own property.\<close>

lemma fold_assign:
  "''__proto__'' \<notin> set cs \<Longrightarrow> length cs = length ns \<Longrightarrow>
   foldl (\<lambda>obj (c, index). assign obj c (g index)) obj (zip cs ns)
     = obj\<lparr>own_props := foldl (\<lambda>ps (c, index). put ps c (g index)) (own_props obj) (zip cs ns)\<rparr>"
proof (induction cs arbitrary: ns obj)
  case Nil
  then show ?case by simp
next
  case (Cons c cs)
  then obtain n ns' where ns: "ns = n # ns'"
    by (cases ns) auto
  have "assign obj c (g n) = obj\<lparr>own_props := put (own_props obj) c (g n)\<rparr>"
    using Cons.prems(1) by (auto simp: assign_def)
  then show ?case
    using Cons.prems Cons.IH [of ns' "obj\<lparr>own_props := put (own_props obj) c (g n)\<rparr>"]
    by (simp add: ns)
qed

lemma format_row_own:
  assumes "''__proto__'' \<notin> set cols"
  shows "format_row cols row =
     \<lparr>own_props = foldl (\<lambda>ps (c, index). put ps c (js_nth (row_d row) index))
                    [(''symbol'', JStr (row_s row))] (zip cols [0..<length cols]),
      prototype_of = ObjectPrototype\<rparr>"
  by (simp add: format_row_def fold_assign [OF assms])

text \<open>The record the code builds is then the record the specification describes.\<close>

lemma format_row_spec:
  "''__proto__'' \<notin> set cols \<Longrightarrow> map_of (own_props (format_row cols row)) = spec_record cols row"
  by (simp add: format_row_own spec_record_def fold_put)

lemma format_row_prototype:
  "''__proto__'' \<notin> set cols \<Longrightarrow> prototype_of (format_row cols row) = ObjectPrototype"
  by (simp add: format_row_own)

lemma format_row_distinct:
  "''__proto__'' \<notin> set cols \<Longrightarrow> distinct (map fst (own_props (format_row cols row)))"
  by (simp add: format_row_own fold_put_distinct)

lemma format_row_symbol:
  "''__proto__'' \<notin> set cols \<Longrightarrow> ''symbol'' \<notin> set cols \<Longrightarrow>
   get (own_props (format_row cols row)) ''symbol'' = JStr (row_s row)"
  by (simp add: get_def format_row_spec spec_record_def map_upds_apply_nontin)

lemma format_row_column:
  "''__proto__'' \<notin> set cols \<Longrightarrow> distinct cols \<Longrightarrow> i < length cols \<Longrightarrow>
   get (own_props (format_row cols row)) (cols ! i) = js_nth (row_d row) i"
  by (simp add: get_def format_row_spec spec_record_def map_upds_nth)

lemma format_row_example:
  "format_row [''close'', ''volume'']
     \<lparr>row_s = ''NASDAQ:AAPL'', row_d = [JNum 150.2, JNum 9000000]\<rparr>
   = \<lparr>own_props = [(''symbol'', JStr ''NASDAQ:AAPL''), (''close'', JNum 150.2),
                   (''volume'', JNum 9000000)],
      prototype_of = ObjectPrototype\<rparr>"
  by (simp add: format_row_def assign_def js_nth_def upt_rec)

text \<open>A column named \<open>__proto__\<close> with a number under it leaves no trace in the record.\<close>

lemma format_row_proto:
  "format_row [''__proto__'', ''close''] \<lparr>row_s = ''A'', row_d = [JNum 5, JNum 2]\<rparr>
   = \<lparr>own_props = [(''symbol'', JStr ''A''), (''close'', JNum 2)],
      prototype_of = ObjectPrototype\<rparr>"
  by (simp add: format_row_def assign_def js_nth_def upt_rec)

section \<open>Lemmas on the combinators\<close>

lemma isOperationDict_And: "isOperationDict (And xs)"
  by (simp add: isOperationDict_def And_def get_def)

lemma isOperationDict_Or: "isOperationDict (Or xs)"
  by (simp add: isOperationDict_def Or_def get_def)

text \<open>An object of type \<open>FilterOperationDict\<close> fails the test: its \<open>operation\<close> is a string.\<close>

lemma predicate_not_tagged: "isFilterOperationDict e \<Longrightarrow> \<not> isOperationDict e"
  by (auto simp: isFilterOperationDict_def isOperationDict_def get_def
      split: option.splits jsany.splits)

lemma operands_of_And:
  "operands_of (And xs) = map (\<lambda>e. if isOperationDict e then JObject e else Leaf e) xs"
  by (simp add: operands_of_def And_def get_def Leaf_def)

lemma operands_of_Or:
  "operands_of (Or xs) = map (\<lambda>e. if isOperationDict e then JObject e else Leaf e) xs"
  by (simp add: operands_of_def Or_def get_def Leaf_def)

lemma operator_of_And: "operator_of (And xs) = JStr ''and''"
  by (simp add: operator_of_def And_def get_def)

lemma operator_of_Or: "operator_of (Or xs) = JStr ''or''"
  by (simp add: operator_of_def Or_def get_def)

text \<open>Every method of \<open>Column\<close> returns an object of type \<open>FilterOperationDict\<close>.\<close>

lemma column_predicates:
  "isFilterOperationDict (gt c v)" "isFilterOperationDict (gte c v)"
  "isFilterOperationDict (lt c v)" "isFilterOperationDict (lte c v)"
  "isFilterOperationDict (eq c v)" "isFilterOperationDict (neq c v)"
  "isFilterOperationDict (between c lo hi)" "isFilterOperationDict (notBetween c lo hi)"
  "isFilterOperationDict (inDayRange c lo hi)" "isFilterOperationDict (inWeekRange c lo hi)"
  "isFilterOperationDict (inMonthRange c lo hi)" "isFilterOperationDict (abovePct c x)"
  "isFilterOperationDict (belowPct c x)" "isFilterOperationDict (betweenPct c lo hi)"
  "isFilterOperationDict (notBetweenPct c lo hi)" "isFilterOperationDict (crosses c v)"
  "isFilterOperationDict (crossesAbove c v)" "isFilterOperationDict (crossesBelow c v)"
  "isFilterOperationDict (like c s)" "isFilterOperationDict (notLike c s)"
  "isFilterOperationDict (has c vs)" "isFilterOperationDict (hasNoneOf c vs)"
  "isFilterOperationDict (isin c vs)" "isFilterOperationDict (notIn c vs)"
  "isFilterOperationDict (empty_c c)" "isFilterOperationDict (notEmpty c)"
  by (simp_all add: isFilterOperationDict_def Operation_def gt_def gte_def lt_def lte_def eq_def
      neq_def between_def notBetween_def inDayRange_def inWeekRange_def inMonthRange_def
      abovePct_def belowPct_def betweenPct_def notBetweenPct_def crosses_def crossesAbove_def
      crossesBelow_def like_def notLike_def has_def hasNoneOf_def isin_def notIn_def empty_c_def
      notEmpty_def)

section \<open>Properties\<close>

subsection \<open>Range composition\<close>

text \<open>
  C1. On a freshly constructed builder the range is \<open>[0,50]\<close>; \<open>limit(10)\<close> makes it
  \<open>[0,10]\<close>; \<open>offset(5)\<close> on that result makes it \<open>[5,15]\<close>, the width 10 kept; and
  \<open>limit(20)\<close> on that makes it \<open>[5,25]\<close>, the lower bound 5 kept.
\<close>

theorem range_composition:
  "range_fld (state (fst (new_Query h)) (snd (new_Query h))) = Some (Num (Fin 0), Num (Fin 50)) \<and>
   range_fld (state (limit (fst (new_Query h)) (snd (new_Query h)) (Fin 10)) (snd (new_Query h)))
     = Some (Num (Fin 0), Num (Fin 10)) \<and>
   range_fld (state (offset (limit (fst (new_Query h)) (snd (new_Query h)) (Fin 10))
                       (snd (new_Query h)) (Fin 5)) (snd (new_Query h)))
     = Some (Num (Fin 5), Num (Fin 15)) \<and>
   range_fld (state (limit (offset (limit (fst (new_Query h)) (snd (new_Query h)) (Fin 10))
                              (snd (new_Query h)) (Fin 5)) (snd (new_Query h)) (Fin 20))
                (snd (new_Query h)))
     = Some (Num (Fin 5), Num (Fin 25))"
  by (simp add: range_limit range_offset new_Query_state js_sub_def to_double_integer)

subsection \<open>The combinators\<close>

text \<open>
  C2. For every argument list of \<open>And\<close> and of \<open>Or\<close>: an argument that is a bare
  predicate (an object of type \<open>FilterOperationDict\<close>) becomes the leaf wrapping it, and
  an argument that carries the connective tag is the operand itself, unchanged. There is
  one operand per argument, so nothing is flattened: \<open>And(p, Or(q, r))\<close> is an \<open>and\<close> node
  of two operands, the leaf of \<open>p\<close> and the whole node \<open>Or(q, r)\<close>. Nodes built by \<open>And\<close>
  and \<open>Or\<close> carry the tag.
\<close>

theorem combinators_wrap_or_nest:
  "(\<forall>i < length exprs.
      (isFilterOperationDict (exprs ! i) \<longrightarrow>
         operands_of (And exprs) ! i = Leaf (exprs ! i) \<and>
         operands_of (Or exprs) ! i = Leaf (exprs ! i)) \<and>
      (isOperationDict (exprs ! i) \<longrightarrow>
         operands_of (And exprs) ! i = JObject (exprs ! i) \<and>
         operands_of (Or exprs) ! i = JObject (exprs ! i))) \<and>
   length (operands_of (And exprs)) = length exprs \<and>
   length (operands_of (Or exprs)) = length exprs \<and>
   operator_of (And exprs) = JStr ''and'' \<and> operator_of (Or exprs) = JStr ''or'' \<and>
   isOperationDict (And exprs) \<and> isOperationDict (Or exprs) \<and>
   (isFilterOperationDict p \<longrightarrow>
      And [p, Or [q, r]] =
        [(''operation'', JObject [(''operator'', JStr ''and''),
                                  (''operands'', JArray [Leaf p, JObject (Or [q, r])])])])"
  by (simp add: operands_of_And operands_of_Or operator_of_And operator_of_Or isOperationDict_And
      isOperationDict_Or predicate_not_tagged)
    (simp add: And_def [of "[p, Or [q, r]]"] isOperationDict_Or predicate_not_tagged Leaf_def)

theorem combinators_wrap_or_nest_witness:
  "isFilterOperationDict (gt (col ''close'') (JNum 5)) \<and>
   isOperationDict (Or [lt (col ''RSI'') (JNum 35), empty_c (col ''beta'')]) \<and>
   operands_of (And [gt (col ''close'') (JNum 5),
                     Or [lt (col ''RSI'') (JNum 35), empty_c (col ''beta'')]])
     = [Leaf (gt (col ''close'') (JNum 5)),
        JObject (Or [lt (col ''RSI'') (JNum 35), empty_c (col ''beta'')])] \<and>
   operands_of (Or [lt (col ''RSI'') (JNum 35), empty_c (col ''beta'')])
     = [Leaf (lt (col ''RSI'') (JNum 35)), Leaf (empty_c (col ''beta''))]"
  using combinators_wrap_or_nest
    [of "[gt (col ''close'') (JNum 5), Or [lt (col ''RSI'') (JNum 35), empty_c (col ''beta'')]]"
        "gt (col ''close'') (JNum 5)" "lt (col ''RSI'') (JNum 35)" "empty_c (col ''beta'')"]
  by (simp add: column_predicates isOperationDict_Or operands_of_Or predicate_not_tagged
      operands_of_def [of "[(''operation'', x)]" for x] get_def)

text \<open>
  C4, as stated, fails: \<open>And()\<close> and \<open>Or()\<close> with no argument are connective nodes whose
  operand sequence is empty.
\<close>

theorem empty_combinator_has_no_operand:
  "isOperationDict (And []) \<and> operands_of (And []) = [] \<and> \<not> 1 \<le> length (operands_of (And [])) \<and>
   isOperationDict (Or []) \<and> operands_of (Or []) = [] \<and> \<not> 1 \<le> length (operands_of (Or []))"
  by (simp add: operands_of_And operands_of_Or isOperationDict_And isOperationDict_Or)

text \<open>
  C4, amended. A connective node produced by \<open>And\<close> or \<open>Or\<close> has exactly one operand for
  each argument: its operand sequence is empty exactly when the argument list is.
\<close>

theorem one_operand_per_argument:
  "length (operands_of (And exprs)) = length exprs \<and>
   length (operands_of (Or exprs)) = length exprs \<and>
   (operands_of (And exprs) = []) = (exprs = []) \<and>
   (operands_of (Or exprs) = []) = (exprs = [])"
  by (simp add: operands_of_And operands_of_Or)

subsection \<open>The serialized document\<close>

text \<open>
  C3, as stated, fails: the document of a fresh builder has the keys \<open>filter\<close> and
  \<open>symbols\<close>, holding the empty list and the empty object the constructor put there.
\<close>

theorem fresh_document_has_filter_and_symbols:
  "filter_fld (toJSON (fst (new_Query heap0)) (snd (new_Query heap0))) \<noteq> None \<and>
   symbols (toJSON (fst (new_Query heap0)) (snd (new_Query heap0))) \<noteq> None \<and>
   filter_fld (toJSON (fst (new_Query heap0)) (snd (new_Query heap0))) = Some [] \<and>
   symbols (toJSON (fst (new_Query heap0)) (snd (new_Query heap0))) = Some no_symbols"
  by (simp add: toJSON_state new_Query_state)

text \<open>
  C3, amended. The document of a builder whose filters and symbol selection were never
  touched (a fresh builder after any calls other than \<open>where\<close>, \<open>where2\<close>, \<open>setTickers\<close>
  and \<open>setIndex\<close>) carries \<open>filter\<close> as the empty list and \<open>symbols\<close> as the empty
  object: the keys are present, as empty placeholders. Only \<open>filter2\<close> is absent.
  \<open>markets\<close>, \<open>sort\<close> and \<open>range\<close> are always present, and on the fresh builder they
  carry the defaults.
\<close>

theorem untouched_document_placeholders:
  assumes "\<forall>c \<in> set calls. untouching c"
    and "doc = toJSON (fst (chain (new_Query h) calls)) (snd (chain (new_Query h) calls))"
  shows "filter_fld doc = Some [] \<and> symbols doc = Some no_symbols \<and> filter2 doc = None \<and>
    markets doc \<noteq> None \<and> sort_fld doc \<noteq> None \<and> range_fld doc \<noteq> None \<and>
    toJSON (fst (new_Query h)) (snd (new_Query h)) =
     \<lparr>markets = Some [''america''], symbols = Some no_symbols, options = Some (Some ''en''),
      columns = Some [''name'', ''close'', ''volume'', ''market_cap_basic''],
      filter_fld = Some [], filter2 = None,
      sort_fld = Some \<lparr>sortBy = ''name'', sortOrder = asc, nullsFirst = None\<rparr>,
      range_fld = Some (Num (Fin 0), Num (Fin 50)), preset = None, price_conversion = None\<rparr>"
proof -
  have "placeholders (state (fst (new_Query h)) (snd (new_Query h)))"
    by (simp add: new_Query_state placeholders_def)
  then have
    "placeholders (state (fst (chain (new_Query h) calls)) (snd (chain (new_Query h) calls)))"
    using chain_placeholders [OF new_Query_allocated _ assms(1), of h] by simp
  then have "placeholders doc"
    unfolding assms(2) by (rule placeholders_toJSON)
  moreover have "toJSON (fst (new_Query h)) (snd (new_Query h)) =
     \<lparr>markets = Some [''america''], symbols = Some no_symbols, options = Some (Some ''en''),
      columns = Some [''name'', ''close'', ''volume'', ''market_cap_basic''],
      filter_fld = Some [], filter2 = None,
      sort_fld = Some \<lparr>sortBy = ''name'', sortOrder = asc, nullsFirst = None\<rparr>,
      range_fld = Some (Num (Fin 0), Num (Fin 50)), preset = None, price_conversion = None\<rparr>"
    by (simp add: toJSON_state new_Query_state)
  ultimately show ?thesis
    by (simp add: placeholders_def)
qed

theorem untouched_document_placeholders_witness:
  "filter_fld (toJSON
      (fst (chain (new_Query heap0)
              [Select [''close''], Limit (Fin 5), Copy, OrderBy ''close'' None None]))
      (snd (chain (new_Query heap0)
              [Select [''close''], Limit (Fin 5), Copy, OrderBy ''close'' None None])))
     = Some [] \<and>
   filter2 (toJSON
      (fst (chain (new_Query heap0)
              [Select [''close''], Limit (Fin 5), Copy, OrderBy ''close'' None None]))
      (snd (chain (new_Query heap0)
              [Select [''close''], Limit (Fin 5), Copy, OrderBy ''close'' None None])))
     = None"
  using untouched_document_placeholders
    [of "[Select [''close''], Limit (Fin 5), Copy, OrderBy ''close'' None None]" _ heap0, OF _ refl]
  by simp

subsection \<open>Copies\<close>

text \<open>
  C5. Let \<open>C = Q.copy()\<close>, for a builder \<open>Q\<close> of the heap. Copying leaves what \<open>Q\<close> holds
  as it was and gives \<open>C\<close> the JSON document of it; no object is reached by both. Whatever
  calls are then chained on \<open>C\<close>, every field of what \<open>Q\<close> holds (columns, markets, symbol
  groups, filter list, filter tree, sort, range) keeps its value from before the copy; and
  whatever calls are chained on \<open>Q\<close>, what \<open>C\<close> holds stays what the copy gave it.
\<close>

theorem copy_isolated:
  assumes "allocated h Q" and "copy h Q = (h', C)"
  shows "state h' Q = state h Q \<and>
         state h' C = toJSON h Q \<and>
         cells h' Q \<inter> cells h' C = {} \<and>
         state (fst (chain (h', C) calls)) Q = state h Q \<and>
         state (fst (chain (h', Q) calls)) C = state h' C"
proof -
  have ext: "extends h h'"
    using copy_extends [of h Q] assms(2) by simp
  have fresh: "cells h' C \<subseteq> {nxt h ..< nxt h'}"
    using copy_cells [of h Q] assms(2) by simp
  have st: "state h' Q = state h Q" and cq: "cells h' Q = cells h Q"
    using extends_read [OF ext assms(1)] by simp_all
  have aq: "allocated h' Q"
    using assms(1) ext by (auto simp: allocated_def cq extends_def)
  have ac: "allocated h' C"
    using fresh by (auto simp: allocated_def)
  have ap: "cells h' Q \<inter> cells h' C = {}"
    using assms(1) fresh by (fastforce simp: allocated_def cq)
  have ap': "cells h' C \<inter> cells h' Q = {}"
    using ap by blast
  have "state h' C = toJSON h Q"
    using copy_state [OF assms(1)] assms(2) by simp
  moreover have "state (fst (chain (h', C) calls)) Q = state h Q"
    using chain_frame [OF aq ac ap, of calls] st by simp
  moreover have "state (fst (chain (h', Q) calls)) C = state h' C"
    using chain_frame [OF ac aq ap', of calls] by simp
  ultimately show ?thesis
    using st ap by simp
qed

theorem copy_isolated_witness:
  "allocated (fst (new_Query heap0)) (snd (new_Query heap0)) \<and>
   columns (state (fst (chain (copy (fst (new_Query heap0)) (snd (new_Query heap0)))
                          [Select [''volume''], Limit (Fin 5)]))
                  (snd (new_Query heap0)))
     = Some [''name'', ''close'', ''volume'', ''market_cap_basic''] \<and>
   range_fld (state (fst (chain (copy (fst (new_Query heap0)) (snd (new_Query heap0)))
                          [Select [''volume''], Limit (Fin 5)]))
                  (snd (new_Query heap0)))
     = Some (Num (Fin 0), Num (Fin 50))"
proof -
  let ?H = "fst (new_Query heap0)" and ?Q = "snd (new_Query heap0)"
  have a: "allocated ?H ?Q"
    by (rule new_Query_allocated)
  have c: "copy ?H ?Q = (fst (copy ?H ?Q), snd (copy ?H ?Q))"
    by simp
  show ?thesis
    using a copy_isolated [OF a c, of "[Select [''volume''], Limit (Fin 5)]"]
    by (simp add: new_Query_state)
qed

subsection \<open>The range invariant\<close>




subsection \<open>The response mapper\<close>

text \<open>
  C7, as stated, fails for a column named \<open>__proto__\<close>. With the columns
  \<open>['__proto__','close']\<close> and the row \<open>{s:'A', d:[5, 2]}\<close> the record is
  \<open>{symbol:'A', close:2}\<close>: the assignment to \<open>__proto__\<close> goes to the setter of
  \<open>Object.prototype\<close>, which ignores a number, and no property of that name holds 5.
\<close>

theorem proto_column_is_dropped:
  "getScannerData
     (select (fst (new_Query heap0)) (snd (new_Query heap0)) [''__proto__'', ''close''])
     (snd (new_Query heap0))
     (Inr \<lparr>totalCount = 1, data = [\<lparr>row_s = ''A'', row_d = [JNum 5, JNum 2]\<rparr>]\<rparr>)
   = Inr \<lparr>totalCount = 1,
          data = [\<lparr>own_props = [(''symbol'', JStr ''A''), (''close'', JNum 2)],
                   prototype_of = ObjectPrototype\<rparr>]\<rparr> \<and>
   spec_record [''__proto__'', ''close''] \<lparr>row_s = ''A'', row_d = [JNum 5, JNum 2]\<rparr>
     ''__proto__'' = Some (JNum 5) \<and>
   map_of (own_props (format_row [''__proto__'', ''close'']
                        \<lparr>row_s = ''A'', row_d = [JNum 5, JNum 2]\<rparr>)) ''__proto__'' = None"
proof -
  have "columns (queryDict
          (select (fst (new_Query heap0)) (snd (new_Query heap0)) [''__proto__'', ''close''])
          (snd (new_Query heap0))) = Some [''__proto__'', ''close'']"
    by (simp add: select_def heap_defs new_Query_def)
  then show ?thesis
    by (simp add: getScannerData_def format_row_proto spec_record_def js_nth_def upt_rec)
qed

text \<open>
  C7, amended. For every response and every column list of the query in which no column
  is named \<open>__proto__\<close>, \<open>getScannerData\<close> returns the total count unchanged and one
  record per row, in the order of the rows. Each record is an object of prototype
  \<open>Object.prototype\<close> whose properties are \<open>{symbol}\<close> updated with
  \<open>{columns[i]: values[i]}\<close> for each index \<open>i\<close> in turn (\<open>values[i]\<close> being
  \<open>undefined\<close> beyond the end of the row), no property twice; so it holds the row's
  symbol under \<open>symbol\<close> when no column has that name, and \<open>values[i]\<close> under
  \<open>columns[i]\<close> when the column names differ from one another. For the columns
  \<open>['close','volume']\<close> and the row \<open>{s:'NASDAQ:AAPL', d:[150.2, 9000000]}\<close> the record
  is \<open>{symbol:'NASDAQ:AAPL', close:150.2, volume:9000000}\<close>.
\<close>

theorem scanner_data_mapping:
  assumes "cols = (case columns (state h this) of None \<Rightarrow> [] | Some cs \<Rightarrow> cs)"
    and "''__proto__'' \<notin> set cols"
  shows "(\<exists>out. getScannerData h this (Inr rawData) = Inr out \<and>
           totalCount out = totalCount rawData \<and>
           length (data out) = length (data rawData) \<and>
           (\<forall>j < length (data rawData).
              map_of (own_props (data out ! j)) = spec_record cols (data rawData ! j) \<and>
              prototype_of (data out ! j) = ObjectPrototype \<and>
              distinct (map fst (own_props (data out ! j))) \<and>
              (''symbol'' \<notin> set cols \<longrightarrow>
                 get (own_props (data out ! j)) ''symbol'' = JStr (row_s (data rawData ! j))) \<and>
              (distinct cols \<longrightarrow>
                 (\<forall>i < length cols.
                    get (own_props (data out ! j)) (cols ! i)
                      = js_nth (row_d (data rawData ! j)) i)))) \<and>
         (cols = [''close'', ''volume''] \<and>
          data rawData = [\<lparr>row_s = ''NASDAQ:AAPL'', row_d = [JNum 150.2, JNum 9000000]\<rparr>] \<longrightarrow>
          getScannerData h this (Inr rawData) =
            Inr \<lparr>totalCount = totalCount rawData,
                 data = [\<lparr>own_props = [(''symbol'', JStr ''NASDAQ:AAPL''), (''close'', JNum 150.2),
                                        (''volume'', JNum 9000000)],
                          prototype_of = ObjectPrototype\<rparr>]\<rparr>)"
proof -
  have c: "(case columns (queryDict h this) of None \<Rightarrow> [] | Some cs \<Rightarrow> cs) = cols"
    by (simp add: assms(1) state_defs queryDict_def)
  have r: "getScannerData h this (Inr rawData) =
             Inr \<lparr>totalCount = totalCount rawData, data = map (format_row cols) (data rawData)\<rparr>"
    by (simp add: getScannerData_def c)
  have e: "format_row [''close'', ''volume'']
             \<lparr>row_s = ''NASDAQ:AAPL'', row_d = [JNum 150.2, JNum 9000000]\<rparr>
           = \<lparr>own_props = [(''symbol'', JStr ''NASDAQ:AAPL''), (''close'', JNum 150.2),
                           (''volume'', JNum 9000000)],
              prototype_of = ObjectPrototype\<rparr>"
    by (rule format_row_example)
  show ?thesis
    using e assms(2)
    by (simp add: r format_row_spec format_row_prototype format_row_distinct format_row_symbol
        format_row_column)
qed

theorem scanner_data_mapping_witness:
  "getScannerData (select (fst (new_Query heap0)) (snd (new_Query heap0)) [''close'', ''volume''])
     (snd (new_Query heap0))
     (Inr \<lparr>totalCount = 1,
           data = [\<lparr>row_s = ''NASDAQ:AAPL'', row_d = [JNum 150.2, JNum 9000000]\<rparr>]\<rparr>)
   = Inr \<lparr>totalCount = 1,
          data = [\<lparr>own_props = [(''symbol'', JStr ''NASDAQ:AAPL''), (''close'', JNum 150.2),
                                 (''volume'', JNum 9000000)],
                   prototype_of = ObjectPrototype\<rparr>]\<rparr>"
  using scanner_data_mapping
    [of "[''close'', ''volume'']"
        "select (fst (new_Query heap0)) (snd (new_Query heap0)) [''close'', ''volume'']"
        "snd (new_Query heap0)"
        "\<lparr>totalCount = 1,
          data = [\<lparr>row_s = ''NASDAQ:AAPL'', row_d = [JNum 150.2, JNum 9000000]\<rparr>]\<rparr>"]
  by (simp add: select_def state_defs heap_defs new_Query_def)

subsection \<open>Empty argument lists\<close>

text \<open>
  C8. \<open>select\<close>, \<open>setMarkets\<close> and \<open>setTickers\<close> called with no argument leave the whole
  heap as it was, and with it the columns, markets and tickers set before; none of them
  fails.
\<close>

theorem empty_arguments_ignored:
  "select h this [] = h \<and> setMarkets h this [] = h \<and> setTickers h this [] = h"
  by (simp add: select_def setMarkets_def setTickers_def)

subsection \<open>Nullary predicates\<close>

text \<open>
  C9. For every field name \<open>f\<close>, the predicates \<open>col(f).empty()\<close> and
  \<open>col(f).notEmpty()\<close> have exactly the properties \<open>left\<close> and \<open>operation\<close>, holding \<open>f\<close>
  and the code \<open>empty\<close> or \<open>nempty\<close>: there is no property \<open>right\<close>, with any value.
\<close>

theorem nullary_predicates_have_no_right:
  "map fst (empty_c (col f)) = [''left'', ''operation''] \<and>
   \<not> js_in ''right'' (JObject (empty_c (col f))) \<and>
   map_of (empty_c (col f)) ''right'' = None \<and>
   get (empty_c (col f)) ''left'' = JStr f \<and>
   get (empty_c (col f)) ''operation'' = JStr ''empty'' \<and>
   map fst (notEmpty (col f)) = [''left'', ''operation''] \<and>
   \<not> js_in ''right'' (JObject (notEmpty (col f))) \<and>
   map_of (notEmpty (col f)) ''right'' = None \<and>
   get (notEmpty (col f)) ''left'' = JStr f \<and>
   get (notEmpty (col f)) ''operation'' = JStr ''nempty''"
  by (simp add: empty_c_def notEmpty_def col_def get_def)

subsection \<open>Tickers and groups\<close>

text \<open>
  C10, as stated, fails: a \<open>setIndex\<close> call with no argument appends no group. On a fresh
  builder it leaves the heap as it was, and the selection still has no group list.
\<close>

theorem setIndex_without_arguments_appends_nothing:
  "setIndex (fst (new_Query heap0)) (snd (new_Query heap0)) [] = fst (new_Query heap0) \<and>
   selected_groups (setIndex (fst (new_Query heap0)) (snd (new_Query heap0)) [])
     (snd (new_Query heap0)) = None"
  by (simp add: setIndex_nil sel_defs new_Query_state no_symbols_def)

text \<open>
  C10, amended. \<open>setTickers\<close> with at least one ticker makes the ticker list the one
  given, whatever it was before, and leaves the group list as it was. \<open>setIndex\<close> with at
  least one index adds one group \<open>{type: 'index', values}\<close> at the end of the group list
  (of the empty list when there was none) and leaves the ticker list as it was; with no
  argument it changes nothing.
\<close>

theorem tickers_and_groups_apart:
  "(ts \<noteq> [] \<longrightarrow>
      selected_tickers (setTickers h this ts) this = Some ts \<and>
      selected_groups (setTickers h this ts) this = selected_groups h this) \<and>
   (ixs \<noteq> [] \<longrightarrow>
      selected_groups (setIndex h this ixs) this =
        Some ((case selected_groups h this of None \<Rightarrow> [] | Some gs \<Rightarrow> gs)
              @ [\<lparr>group_type = ''index'', group_values = ixs\<rparr>]) \<and>
      selected_tickers (setIndex h this ixs) this = selected_tickers h this) \<and>
   setIndex h this [] = h"
  by (simp add: setTickers_sel setIndex_sel setIndex_nil)

theorem tickers_and_groups_apart_witness:
  "selected_tickers
     (setTickers
        (setIndex (setTickers (fst (new_Query heap0)) (snd (new_Query heap0)) [''NYSE:A''])
           (snd (new_Query heap0)) [''SP500''])
        (snd (new_Query heap0)) [''NASDAQ:AAPL'', ''NASDAQ:MSFT''])
     (snd (new_Query heap0))
     = Some [''NASDAQ:AAPL'', ''NASDAQ:MSFT''] \<and>
   selected_groups
     (setTickers
        (setIndex (setTickers (fst (new_Query heap0)) (snd (new_Query heap0)) [''NYSE:A''])
           (snd (new_Query heap0)) [''SP500''])
        (snd (new_Query heap0)) [''NASDAQ:AAPL'', ''NASDAQ:MSFT''])
     (snd (new_Query heap0))
     = Some [\<lparr>group_type = ''index'', group_values = [''SP500'']\<rparr>]"
  using tickers_and_groups_apart
      [of "[''NASDAQ:AAPL'', ''NASDAQ:MSFT'']"
          "setIndex (setTickers (fst (new_Query heap0)) (snd (new_Query heap0)) [''NYSE:A''])
             (snd (new_Query heap0)) [''SP500'']"
          "snd (new_Query heap0)" "[''SP500'']"]
    tickers_and_groups_apart
      [of "[''NYSE:A'']" "fst (new_Query heap0)" "snd (new_Query heap0)" "[''SP500'']"]
    tickers_and_groups_apart
      [of "[''NYSE:A'']"
          "setTickers (fst (new_Query heap0)) (snd (new_Query heap0)) [''NYSE:A'']"
          "snd (new_Query heap0)" "[''SP500'']"]
  by (simp add: sel_defs new_Query_state no_symbols_def)

end
